theory Spec2Isabelle
  imports Main
begin

section \<open>Account lifecycle reconciliation: the SQL functions of the database setup scripts\<close>

text \<open>
  The reconciliation engine of the repository is written in PL/pgSQL, in two setup
  scripts: \<^verbatim>\<open>kjhj/FINAL_COMPLETE_DATABASE_SETUP.sql\<close> (the hardened script, "WITH ADMIN
  PROTECTION") and \<^verbatim>\<open>kjhj/COMPLETE_DATABASE_SETUP.sql\<close> (the earlier script, whose
  enterprise part is repeated in the enterprise enhancement script). A table is a list of
  rows, a row is a record of the columns that the modelled functions read or write, an
  \<^verbatim>\<open>UPDATE\<close> maps over the rows and keeps their positions, a \<^verbatim>\<open>SELECT\<close> is a list
  comprehension, and a nullable column is an option. \<^verbatim>\<open>now()\<close> is constant inside a
  transaction, so every function takes the clock as its first argument.

  Timestamps are microseconds since the epoch, and \<^verbatim>\<open>interval '1 day'\<close> is 86400
  seconds (the session time zone is UTC, where no day has another length).
  The columns \<^verbatim>\<open>trial_status\<close> and \<^verbatim>\<open>trial_end_date\<close> are taken not null, as
  the earlier script declares them and as every \<^verbatim>\<open>INSERT\<close> of both scripts fills them;
  so are \<^verbatim>\<open>created_at\<close> of a subscription, which has the default \<^verbatim>\<open>now()\<close>, and the
  columns of \<^verbatim>\<open>user_account_state\<close> to which \<^verbatim>\<open>sync_user_state\<close> never assigns a null.
  The table \<^verbatim>\<open>auth.users\<close> belongs to the identity provider and is declared in neither
  script; of it the functions read \<^verbatim>\<open>id\<close> and \<^verbatim>\<open>email\<close>.
\<close>

subsection \<open>Data model\<close>

type_synonym uuid = string
type_synonym timestamptz = int

definition interval_1_day :: int where
  "interval_1_day = 86400000000"

definition super_admin :: uuid where
  "super_admin = ''b8782453-a343-4301-a947-67c5bb407d2b''"

datatype trial_status =
  Trial_active | Trial_expired | Converted_to_paid | Scheduled_for_deletion

text \<open>The enum of the earlier script; the hardened script declares it without
  \<^verbatim>\<open>not_started\<close> and \<^verbatim>\<open>paused\<close>.\<close>

datatype stripe_subscription_status =
  Not_started | Incomplete | Incomplete_expired | Trialing | Active
  | Past_due | Canceled | Unpaid | Paused

record auth_user =
  au_id :: uuid
  au_email :: "string option"

record user_trial =
  ut_user_id :: uuid
  trial_end_date :: timestamptz
  trial_status :: trial_status
  deletion_scheduled_at :: "timestamptz option"
  ut_updated_at :: timestamptz

record stripe_customer =
  sc_user_id :: uuid
  sc_customer_id :: string
  sc_deleted_at :: "timestamptz option"

record stripe_subscription =
  ss_customer_id :: string
  ss_subscription_id :: "string option"
  ss_status :: stripe_subscription_status
  ss_current_period_end :: "int option"
  ss_created_at :: timestamptz
  ss_deleted_at :: "timestamptz option"

record axie_studio_account =
  asa_user_id :: uuid
  asa_axie_studio_user_id :: string
  asa_account_status :: "string option"

text \<open>The tables that both scripts share. The two scripts declare different
  \<^verbatim>\<open>user_account_state\<close> tables; each extends this record with its own.\<close>

record tables =
  auth_users :: "auth_user list"
  user_trials :: "user_trial list"
  stripe_customers :: "stripe_customer list"
  stripe_subscriptions :: "stripe_subscription list"
  axie_studio_accounts :: "axie_studio_account list"

subsection \<open>The paying-customer subquery\<close>

text \<open>
  \<^verbatim>\<open>s.status IN ('active', 'trialing')\<close>
\<close>

definition active_or_trialing :: "stripe_subscription_status \<Rightarrow> bool" where
  "active_or_trialing st = (st = Active \<or> st = Trialing)"

text \<open>
  \<^verbatim>\<open>SELECT DISTINCT c.user_id FROM stripe_customers c
  JOIN stripe_subscriptions s ON c.customer_id = s.customer_id
  WHERE s.status IN ('active', 'trialing') AND s.deleted_at IS NULL AND c.deleted_at IS NULL\<close>
  The subquery is written out five times in each script; \<^verbatim>\<open>c.user_id\<close> is
  not null, so \<^verbatim>\<open>NOT IN\<close> over it is plain non-membership.
\<close>

definition paying_user_ids :: "'a tables_scheme \<Rightarrow> uuid list" where
  "paying_user_ids db =
     remdups [sc_user_id c. c \<leftarrow> stripe_customers db, s \<leftarrow> stripe_subscriptions db,
                sc_customer_id c = ss_customer_id s,
                active_or_trialing (ss_status s),
                ss_deleted_at s = None,
                sc_deleted_at c = None]"

subsection \<open>Deletion Sweeper: \<^verbatim>\<open>get_users_for_deletion\<close>\<close>

record deletion_candidate =
  dc_user_id :: uuid
  dc_email :: "string option"
  dc_trial_end_date :: timestamptz

text \<open>The hardened script (lines 576 to 604), with the check on the super admin.\<close>

definition get_users_for_deletion :: "timestamptz \<Rightarrow> 'a tables_scheme \<Rightarrow> deletion_candidate list" where
  "get_users_for_deletion now db =
     [\<lparr>dc_user_id = ut_user_id ut, dc_email = au_email au, dc_trial_end_date = trial_end_date ut\<rparr>.
        ut \<leftarrow> user_trials db, au \<leftarrow> auth_users db,
        ut_user_id ut = au_id au,
        trial_status ut = Scheduled_for_deletion,
        ut_user_id ut \<noteq> super_admin,
        ut_user_id ut \<notin> set (paying_user_ids db),
        trial_end_date ut < now - interval_1_day]"

text \<open>The earlier script (lines 403 to 429): the same query without the check on the
  super admin.\<close>

definition get_users_for_deletion_basic :: "timestamptz \<Rightarrow> 'a tables_scheme \<Rightarrow> deletion_candidate list" where
  "get_users_for_deletion_basic now db =
     [\<lparr>dc_user_id = ut_user_id ut, dc_email = au_email au, dc_trial_end_date = trial_end_date ut\<rparr>.
        ut \<leftarrow> user_trials db, au \<leftarrow> auth_users db,
        ut_user_id ut = au_id au,
        trial_status ut = Scheduled_for_deletion,
        ut_user_id ut \<notin> set (paying_user_ids db),
        trial_end_date ut < now - interval_1_day]"

subsection \<open>Trial state machine: \<^verbatim>\<open>sync_subscription_status\<close>\<close>

text \<open>
  The three \<^verbatim>\<open>UPDATE user_trials\<close> statements of \<^verbatim>\<open>sync_subscription_status\<close>, each
  as the function it applies to one row. The subquery reads only the billing tables, which
  no statement writes, so its result \<open>paying\<close> is the same for all three.

  The first statement: \<^verbatim>\<open>WHERE user_id IN (...) AND trial_status NOT IN ('converted_to_paid')\<close>.
\<close>

definition convert_paying_row :: "timestamptz \<Rightarrow> uuid list \<Rightarrow> user_trial \<Rightarrow> user_trial" where
  "convert_paying_row now paying ut =
     (if ut_user_id ut \<in> set paying \<and> trial_status ut \<noteq> Converted_to_paid
      then ut\<lparr>trial_status := Converted_to_paid, deletion_scheduled_at := None,
              ut_updated_at := now\<rparr>
      else ut)"

text \<open>
  The second statement. \<open>guard\<close> is the line
  \<^verbatim>\<open>AND user_id != 'b8782453-a343-4301-a947-67c5bb407d2b'::uuid\<close>, which the hardened
  script has and the earlier script has not.
\<close>

definition expire_row :: "bool \<Rightarrow> timestamptz \<Rightarrow> uuid list \<Rightarrow> user_trial \<Rightarrow> user_trial" where
  "expire_row guard now paying ut =
     (if trial_end_date ut < now \<and> trial_status ut = Trial_active
         \<and> (guard \<longrightarrow> ut_user_id ut \<noteq> super_admin)
         \<and> ut_user_id ut \<notin> set paying
      then ut\<lparr>trial_status := Trial_expired,
              deletion_scheduled_at := Some (now + interval_1_day),
              ut_updated_at := now\<rparr>
      else ut)"

text \<open>
  The third statement. \<^verbatim>\<open>deletion_scheduled_at < now()\<close> is not true of a null.
\<close>

definition schedule_row :: "bool \<Rightarrow> timestamptz \<Rightarrow> uuid list \<Rightarrow> user_trial \<Rightarrow> user_trial" where
  "schedule_row guard now paying ut =
     (if trial_status ut = Trial_expired
         \<and> (case deletion_scheduled_at ut of None \<Rightarrow> False | Some d \<Rightarrow> d < now)
         \<and> (guard \<longrightarrow> ut_user_id ut \<noteq> super_admin)
         \<and> ut_user_id ut \<notin> set paying
      then ut\<lparr>trial_status := Scheduled_for_deletion, ut_updated_at := now\<rparr>
      else ut)"

definition sync_subscription_status_with ::
  "bool \<Rightarrow> timestamptz \<Rightarrow> 'a tables_scheme \<Rightarrow> 'a tables_scheme" where
  "sync_subscription_status_with guard now db =
     (let paying = paying_user_ids db;
          t1 = map (convert_paying_row now paying) (user_trials db);
          t2 = map (expire_row guard now paying) t1;
          t3 = map (schedule_row guard now paying) t2
      in db\<lparr>user_trials := t3\<rparr>)"

text \<open>The hardened script, lines 453 to 515.\<close>

definition sync_subscription_status :: "timestamptz \<Rightarrow> 'a tables_scheme \<Rightarrow> 'a tables_scheme" where
  "sync_subscription_status = sync_subscription_status_with True"

text \<open>The earlier script, lines 278 to 336.\<close>

definition sync_subscription_status_basic :: "timestamptz \<Rightarrow> 'a tables_scheme \<Rightarrow> 'a tables_scheme" where
  "sync_subscription_status_basic = sync_subscription_status_with False"

text \<open>
  \<^verbatim>\<open>protect_paying_customers\<close>, the same in both scripts:
  \<^verbatim>\<open>WHERE user_id IN (...) AND trial_status IN ('expired', 'scheduled_for_deletion')\<close>.
\<close>

definition protect_row :: "timestamptz \<Rightarrow> uuid list \<Rightarrow> user_trial \<Rightarrow> user_trial" where
  "protect_row now paying ut =
     (if ut_user_id ut \<in> set paying
         \<and> (trial_status ut = Trial_expired \<or> trial_status ut = Scheduled_for_deletion)
      then ut\<lparr>trial_status := Converted_to_paid, deletion_scheduled_at := None,
              ut_updated_at := now\<rparr>
      else ut)"

definition protect_paying_customers :: "timestamptz \<Rightarrow> 'a tables_scheme \<Rightarrow> 'a tables_scheme" where
  "protect_paying_customers now db =
     db\<lparr>user_trials := map (protect_row now (paying_user_ids db)) (user_trials db)\<rparr>"

text \<open>
  \<^verbatim>\<open>check_expired_trials\<close>: first \<^verbatim>\<open>protect_paying_customers\<close>, then
  \<^verbatim>\<open>sync_subscription_status\<close>; the notice it raises changes nothing.
\<close>

definition check_expired_trials :: "timestamptz \<Rightarrow> 'a tables_scheme \<Rightarrow> 'a tables_scheme" where
  "check_expired_trials now db = sync_subscription_status now (protect_paying_customers now db)"

definition check_expired_trials_basic :: "timestamptz \<Rightarrow> 'a tables_scheme \<Rightarrow> 'a tables_scheme" where
  "check_expired_trials_basic now db =
     sync_subscription_status_basic now (protect_paying_customers now db)"

text \<open>\<^verbatim>\<open>mark_trial_converted(p_user_id)\<close>, the same in both scripts.\<close>

definition mark_trial_converted :: "timestamptz \<Rightarrow> uuid \<Rightarrow> 'a tables_scheme \<Rightarrow> 'a tables_scheme" where
  "mark_trial_converted now p_user_id db =
     db\<lparr>user_trials :=
          map (\<lambda>ut. if ut_user_id ut = p_user_id
                    then ut\<lparr>trial_status := Converted_to_paid, deletion_scheduled_at := None,
                            ut_updated_at := now\<rparr>
                    else ut)
              (user_trials db)\<rparr>"

subsection \<open>Joins, casts and intervals\<close>

text \<open>The rows that a \<^verbatim>\<open>LEFT JOIN\<close> pairs with one row of its left side: the matching
  rows, or one row of nulls when there is none.\<close>

definition outer_rows :: "'b list \<Rightarrow> 'b option list" where
  "outer_rows ys = (if ys = [] then [None] else map Some ys)"

text \<open>\<^verbatim>\<open>SELECT ... INTO\<close> keeps the first row and assigns nulls when there is no row.\<close>

definition select_into :: "'b list \<Rightarrow> 'b option" where
  "select_into rows = (case rows of [] \<Rightarrow> None | r # _ \<Rightarrow> Some r)"

fun status_text :: "stripe_subscription_status \<Rightarrow> string" where
  "status_text Not_started = ''not_started''"
| "status_text Incomplete = ''incomplete''"
| "status_text Incomplete_expired = ''incomplete_expired''"
| "status_text Trialing = ''trialing''"
| "status_text Active = ''active''"
| "status_text Past_due = ''past_due''"
| "status_text Canceled = ''canceled''"
| "status_text Unpaid = ''unpaid''"
| "status_text Paused = ''paused''"

fun trial_status_text :: "trial_status \<Rightarrow> string" where
  "trial_status_text Trial_active = ''active''"
| "trial_status_text Trial_expired = ''expired''"
| "trial_status_text Converted_to_paid = ''converted_to_paid''"
| "trial_status_text Scheduled_for_deletion = ''scheduled_for_deletion''"

text \<open>The cast \<^verbatim>\<open>::stripe_subscription_status\<close> of a text: a text that is no label of
  the enum raises \<^verbatim>\<open>invalid input value for enum\<close>.\<close>

definition enum_in :: "string \<Rightarrow> stripe_subscription_status option" where
  "enum_in txt =
     (if txt = ''not_started'' then Some Not_started
      else if txt = ''incomplete'' then Some Incomplete
      else if txt = ''incomplete_expired'' then Some Incomplete_expired
      else if txt = ''trialing'' then Some Trialing
      else if txt = ''active'' then Some Active
      else if txt = ''past_due'' then Some Past_due
      else if txt = ''canceled'' then Some Canceled
      else if txt = ''unpaid'' then Some Unpaid
      else if txt = ''paused'' then Some Paused
      else None)"

datatype sql_error =
  Invalid_enum_input string | Not_null_violation | Unique_violation | Cardinality_violation

definition cast_status :: "string option \<Rightarrow> sql_error + stripe_subscription_status option" where
  "cast_status v =
     (case v of None \<Rightarrow> Inr None
      | Some txt \<Rightarrow> (case enum_in txt of None \<Rightarrow> Inl (Invalid_enum_input txt)
                    | Some st \<Rightarrow> Inr (Some st)))"

text \<open>
  \<^verbatim>\<open>CASE WHEN trial_end_date > now() THEN
  EXTRACT(days FROM (trial_end_date - now()))::integer ELSE 0 END\<close>:
  the difference of two timestamps is an interval of whole days and a time of day, and
  its field \<^verbatim>\<open>days\<close> is the number of whole days.
\<close>

definition days_remaining :: "timestamptz \<Rightarrow> timestamptz \<Rightarrow> int" where
  "days_remaining now end_date =
     (if end_date > now then (end_date - now) div interval_1_day else 0)"

subsection \<open>Protection Guard: \<^verbatim>\<open>verify_user_protection\<close>\<close>

record protection_row =
  vp_user_id :: uuid
  vp_email :: "string option"
  is_protected :: bool
  protection_reason :: string
  vp_trial_status :: "string option"
  vp_subscription_status :: string

text \<open>The hardened script, lines 788 to 825. The join with the customers has no condition
  on \<^verbatim>\<open>deleted_at\<close>; the join with the subscriptions keeps the live active or trialing
  rows only. First the \<^verbatim>\<open>SELECT\<close> list, as a function of one joined row.\<close>

definition protection_select ::
  "auth_user \<Rightarrow> user_trial option \<Rightarrow> stripe_subscription option \<Rightarrow> protection_row" where
  "protection_select u ut ss =
     \<lparr>vp_user_id = au_id u, vp_email = au_email u,
      is_protected =
        (if au_id u = super_admin then True
         else if (case ss of None \<Rightarrow> False | Some s \<Rightarrow> active_or_trialing (ss_status s)) then True
         else False),
      protection_reason =
        (if au_id u = super_admin then ''Super Admin Account''
         else if (case ss of None \<Rightarrow> False | Some s \<Rightarrow> active_or_trialing (ss_status s))
         then ''Active Subscription''
         else ''No Protection''),
      vp_trial_status =
        Some (case ut of None \<Rightarrow> ''none'' | Some t \<Rightarrow> trial_status_text (trial_status t)),
      vp_subscription_status =
        (case ss of None \<Rightarrow> ''none'' | Some s \<Rightarrow> status_text (ss_status s))\<rparr>"

definition verify_user_protection :: "uuid \<Rightarrow> 'a tables_scheme \<Rightarrow> protection_row list" where
  "verify_user_protection p_user_id db =
     [protection_select u ut ss.
        u \<leftarrow> auth_users db,
        ut \<leftarrow> outer_rows [t \<leftarrow> user_trials db. au_id u = ut_user_id t],
        sc \<leftarrow> outer_rows [c \<leftarrow> stripe_customers db. au_id u = sc_user_id c],
        ss \<leftarrow> outer_rows (case sc of None \<Rightarrow> []
               | Some c \<Rightarrow> [s \<leftarrow> stripe_subscriptions db.
                              sc_customer_id c = ss_customer_id s
                              \<and> active_or_trialing (ss_status s)
                              \<and> ss_deleted_at s = None]),
        au_id u = p_user_id]"

text \<open>The earlier script, lines 466 to 502: no case for the super admin, a case for a
  trial that is already converted, and joins with the live rows of any status.\<close>

definition protection_select_basic ::
  "auth_user \<Rightarrow> user_trial option \<Rightarrow> stripe_subscription option \<Rightarrow> protection_row" where
  "protection_select_basic u ut s =
     \<lparr>vp_user_id = au_id u, vp_email = au_email u,
      is_protected =
        (if (case s of None \<Rightarrow> False | Some s \<Rightarrow> active_or_trialing (ss_status s)) then True
         else if (case ut of None \<Rightarrow> False | Some t \<Rightarrow> trial_status t = Converted_to_paid)
         then True
         else False),
      protection_reason =
        (if (case s of None \<Rightarrow> False | Some s \<Rightarrow> ss_status s = Active)
         then ''Active paid subscription''
         else if (case s of None \<Rightarrow> False | Some s \<Rightarrow> ss_status s = Trialing)
         then ''Stripe trial period''
         else if (case ut of None \<Rightarrow> False | Some t \<Rightarrow> trial_status t = Converted_to_paid)
         then ''Previously converted to paid''
         else ''No protection - eligible for deletion''),
      vp_trial_status = map_option (\<lambda>t. trial_status_text (trial_status t)) ut,
      vp_subscription_status =
        (case s of None \<Rightarrow> ''none'' | Some s \<Rightarrow> status_text (ss_status s))\<rparr>"

definition verify_user_protection_basic :: "uuid \<Rightarrow> 'a tables_scheme \<Rightarrow> protection_row list" where
  "verify_user_protection_basic p_user_id db =
     [protection_select_basic u ut s.
        u \<leftarrow> auth_users db,
        ut \<leftarrow> outer_rows [t \<leftarrow> user_trials db. au_id u = ut_user_id t],
        c \<leftarrow> outer_rows [c \<leftarrow> stripe_customers db.
                            au_id u = sc_user_id c \<and> sc_deleted_at c = None],
        s \<leftarrow> outer_rows (case c of None \<Rightarrow> []
               | Some c \<Rightarrow> [s \<leftarrow> stripe_subscriptions db.
                              sc_customer_id c = ss_customer_id s \<and> ss_deleted_at s = None]),
        au_id u = p_user_id]"

subsection \<open>Derived account state of the hardened script: \<^verbatim>\<open>sync_user_state\<close>\<close>

datatype account_status = Acc_active | Acc_trial | Acc_expired | Acc_suspended | Acc_deleted

datatype access_level = Lvl_none | Lvl_trial | Lvl_basic | Lvl_pro | Lvl_enterprise

text \<open>The columns of \<^verbatim>\<open>user_account_state\<close> that \<^verbatim>\<open>sync_user_state\<close> writes. The
  column \<^verbatim>\<open>email\<close> is \<^verbatim>\<open>NOT NULL\<close> and \<^verbatim>\<open>UNIQUE\<close>; the null is in the type for the
  value that the function computes, and writing it is an error.\<close>

record account_state_row =
  uas_user_id :: uuid
  uas_email :: "string option"
  account_status :: account_status
  access_level :: access_level
  has_access :: bool
  trial_days_remaining :: int
  stripe_status :: "stripe_subscription_status option"
  uas_updated_at :: timestamptz

record final_db = tables +
  user_account_state :: "account_state_row list"

text \<open>The object that \<^verbatim>\<open>sync_user_state\<close> returns.\<close>

record sync_result =
  sr_user_id :: uuid
  sr_email :: "string option"
  sr_has_subscription :: "bool option"
  sr_subscription_status :: "string option"
  sr_trial_days_remaining :: int
  sr_sync_timestamp :: timestamptz

text \<open>
  \<^verbatim>\<open>ORDER BY ss.created_at DESC LIMIT 1\<close> over the joined rows. A descending order puts
  nulls first; among rows of equal \<^verbatim>\<open>created_at\<close> PostgreSQL promises no order, and the
  model keeps the one that comes first in the table.
\<close>

fun sorts_before :: "stripe_subscription option \<Rightarrow> stripe_subscription option \<Rightarrow> bool" where
  "sorts_before None (Some b) = True"
| "sorts_before (Some a) (Some b) = (ss_created_at a > ss_created_at b)"
| "sorts_before a None = False"

fun first_by_created_desc :: "stripe_subscription option list \<Rightarrow> stripe_subscription option option" where
  "first_by_created_desc [] = None"
| "first_by_created_desc (r # rs) =
     (case first_by_created_desc rs of
        None \<Rightarrow> Some r
      | Some b \<Rightarrow> if sorts_before b r then Some b else Some r)"

text \<open>
  The query "Check for active subscription": the newest live subscription row of the
  customer row of the user, whether or not that customer row is soft-deleted. The result
  is the pair of \<^verbatim>\<open>v_has_subscription\<close> and \<^verbatim>\<open>v_subscription_status\<close>, and \<open>None\<close>
  when the user has no customer row, which leaves both variables null.
\<close>

definition subscription_check :: "uuid \<Rightarrow> 'a tables_scheme \<Rightarrow> (bool \<times> string) option" where
  "subscription_check p_user_id db =
     (case first_by_created_desc
             [ss. sc \<leftarrow> stripe_customers db, sc_user_id sc = p_user_id,
                  ss \<leftarrow> outer_rows [s \<leftarrow> stripe_subscriptions db.
                                      sc_customer_id sc = ss_customer_id s
                                      \<and> ss_deleted_at s = None]] of
        None \<Rightarrow> None
      | Some None \<Rightarrow> Some (False, ''none'')
      | Some (Some s) \<Rightarrow> Some (active_or_trialing (ss_status s), status_text (ss_status s)))"

text \<open>\<^verbatim>\<open>v_trial_days > 0\<close>, which is not true of a null.\<close>

definition days_left :: "int option \<Rightarrow> bool" where
  "days_left v_trial_days = (case v_trial_days of None \<Rightarrow> False | Some d \<Rightarrow> 0 < d)"

text \<open>
  The \<^verbatim>\<open>SET\<close> list of the \<^verbatim>\<open>UPDATE user_account_state\<close> of \<^verbatim>\<open>sync_user_state\<close>, as
  a function of the row, given the variables of the function and the value \<open>st\<close> of the
  cast. A null \<^verbatim>\<open>v_has_subscription\<close> is not true, in \<^verbatim>\<open>CASE WHEN\<close> and in \<^verbatim>\<open>OR\<close>.
\<close>

definition set_account_state ::
  "timestamptz \<Rightarrow> string option \<Rightarrow> bool option \<Rightarrow> int option
     \<Rightarrow> stripe_subscription_status option \<Rightarrow> account_state_row \<Rightarrow> account_state_row" where
  "set_account_state now v_user_email v_has_subscription v_trial_days st r =
     r\<lparr>uas_email := v_user_email,
       account_status :=
         (if v_has_subscription = Some True then Acc_active
          else if days_left v_trial_days then Acc_trial
          else Acc_expired),
       access_level :=
         (if v_has_subscription = Some True then Lvl_pro
          else if days_left v_trial_days then Lvl_trial
          else Lvl_none),
       has_access :=
         (if v_has_subscription = Some True \<or> days_left v_trial_days then True else False),
       trial_days_remaining := (case v_trial_days of None \<Rightarrow> 0 | Some d \<Rightarrow> d),
       stripe_status := st,
       uas_updated_at := now\<rparr>"

text \<open>
  The hardened script, lines 921 to 993. The assignments of the \<^verbatim>\<open>UPDATE\<close> are
  evaluated for the rows that it finds: with no row of the user nothing is evaluated and
  nothing fails. With a row, the cast of \<^verbatim>\<open>v_subscription_status\<close> is evaluated first,
  then the constraints of the column \<^verbatim>\<open>email\<close> are checked.
\<close>

definition sync_user_state :: "timestamptz \<Rightarrow> uuid \<Rightarrow> 'a final_db_scheme \<Rightarrow> sql_error + ('a final_db_scheme \<times> sync_result)" where
  "sync_user_state now p_user_id db =
     (let v_user_email = (case select_into [u \<leftarrow> auth_users db. au_id u = p_user_id] of
                            None \<Rightarrow> None | Some u \<Rightarrow> au_email u);
          chk = subscription_check p_user_id db;
          v_has_subscription = map_option fst chk;
          v_subscription_status = map_option snd chk;
          v_trial_days = select_into [days_remaining now (trial_end_date t).
                                        t \<leftarrow> user_trials db, ut_user_id t = p_user_id];
          v_result = \<lparr>sr_user_id = p_user_id, sr_email = v_user_email,
                      sr_has_subscription = v_has_subscription,
                      sr_subscription_status = v_subscription_status,
                      sr_trial_days_remaining = (case v_trial_days of None \<Rightarrow> 0 | Some d \<Rightarrow> d),
                      sr_sync_timestamp = now\<rparr>
      in if \<not> (\<exists>r \<in> set (user_account_state db). uas_user_id r = p_user_id)
         then Inr (db, v_result)
         else
           (case cast_status v_subscription_status of
              Inl e \<Rightarrow> Inl e
            | Inr st \<Rightarrow>
                if v_user_email = None then Inl Not_null_violation
                else if \<exists>r \<in> set (user_account_state db).
                          uas_user_id r \<noteq> p_user_id \<and> uas_email r = v_user_email
                then Inl Unique_violation
                else Inr
                  (db\<lparr>user_account_state :=
                        map (\<lambda>r. if uas_user_id r = p_user_id
                                  then set_account_state now v_user_email v_has_subscription
                                         v_trial_days st r
                                  else r)
                            (user_account_state db)\<rparr>,
                   v_result)))"

text \<open>
  The trigger function \<^verbatim>\<open>on_subscription_change\<close> of the hardened script (lines 1067 to
  1080), run after each insert or update of a row \<open>new\<close> of \<^verbatim>\<open>stripe_subscriptions\<close>;
  \<open>db\<close> is the database with that row written. A scalar subquery of no row is null, and
  \<^verbatim>\<open>sync_user_state(NULL)\<close> finds no row anywhere; a scalar subquery of several rows
  raises.
\<close>

definition on_subscription_change :: "timestamptz \<Rightarrow> stripe_subscription \<Rightarrow> 'a final_db_scheme \<Rightarrow> sql_error + 'a final_db_scheme" where
  "on_subscription_change now new db =
     (case [sc_user_id c. c \<leftarrow> stripe_customers db, sc_customer_id c = ss_customer_id new] of
        [] \<Rightarrow> Inr db
      | [u] \<Rightarrow> (case sync_user_state now u db of Inl e \<Rightarrow> Inl e | Inr (db', res) \<Rightarrow> Inr db')
      | _ \<Rightarrow> Inl Cardinality_violation)"

text \<open>
  The trigger function \<^verbatim>\<open>on_subscription_change\<close> of the earlier script (lines 522 to
  545), which writes the trial and not the derived state.
\<close>

definition on_subscription_change_basic :: "timestamptz \<Rightarrow> stripe_subscription \<Rightarrow> 'a tables_scheme \<Rightarrow> sql_error + 'a tables_scheme" where
  "on_subscription_change_basic now new db =
     (if active_or_trialing (ss_status new)
      then (case [sc_user_id c. c \<leftarrow> stripe_customers db,
                    sc_customer_id c = ss_customer_id new, sc_deleted_at c = None] of
              [] \<Rightarrow> Inr db
            | [u] \<Rightarrow> Inr (mark_trial_converted now u db)
            | _ \<Rightarrow> Inl Cardinality_violation)
      else Inr db)"


subsection \<open>Derived account state of the enterprise part: \<^verbatim>\<open>sync_user_state\<close>\<close>

text \<open>
  The earlier script (lines 791 to 887) and the enterprise enhancement script (lines 231
  to 327) hold the same text of \<^verbatim>\<open>sync_user_state\<close>, over their own
  \<^verbatim>\<open>user_account_state\<close> table. The column \<^verbatim>\<open>access_level\<close> is a text checked to be one of
  four, which are the constructors here.
\<close>

datatype user_account_status =
  Trial_active_account | Trial_expired_account | Subscription_active | Subscription_trialing
  | Subscription_past_due | Subscription_canceled | Account_suspended | Account_deleted

datatype access_level_text = Level_trial | Level_pro | Level_enterprise | Level_suspended

record enterprise_state_row =
  es_user_id :: uuid
  es_account_status :: user_account_status
  es_has_access :: bool
  es_access_level :: access_level_text
  es_stripe_customer_id :: "string option"
  es_stripe_subscription_id :: "string option"
  es_subscription_status :: "string option"
  es_current_period_end :: "timestamptz option"
  es_axie_studio_user_id :: "string option"
  es_axie_studio_status :: "string option"
  es_trial_days_remaining :: int
  es_updated_at :: timestamptz
  es_last_activity_at :: timestamptz

record enterprise_db = tables +
  enterprise_account_state :: "enterprise_state_row list"

record enterprise_sync_result =
  er_user_id :: uuid
  er_status :: user_account_status
  er_has_access :: bool
  er_access_level :: access_level_text
  er_synced_at :: timestamptz

text \<open>The record \<^verbatim>\<open>v_stripe_info\<close>.\<close>

record stripe_info =
  si_customer_id :: string
  si_subscription_id :: "string option"
  si_status :: "stripe_subscription_status option"
  si_current_period_end :: "int option"

text \<open>
  "Get Stripe information": the conditions on \<^verbatim>\<open>deleted_at\<close> are in the
  \<^verbatim>\<open>WHERE\<close> clause, after the join, so a customer whose subscription rows are all
  soft-deleted gives no row.
\<close>

definition get_stripe_info :: "uuid \<Rightarrow> 'a tables_scheme \<Rightarrow> stripe_info option" where
  "get_stripe_info p_user_id db =
     select_into
       [\<lparr>si_customer_id = sc_customer_id c,
         si_subscription_id = (case s of None \<Rightarrow> None | Some s \<Rightarrow> ss_subscription_id s),
         si_status = map_option ss_status s,
         si_current_period_end = (case s of None \<Rightarrow> None | Some s \<Rightarrow> ss_current_period_end s)\<rparr>.
          c \<leftarrow> stripe_customers db,
          s \<leftarrow> outer_rows [s \<leftarrow> stripe_subscriptions db. sc_customer_id c = ss_customer_id s],
          sc_user_id c = p_user_id,
          sc_deleted_at c = None,
          (case s of None \<Rightarrow> True | Some s \<Rightarrow> ss_deleted_at s = None)]"

text \<open>
  "Determine new status and access": the chain of \<^verbatim>\<open>IF\<close> and \<^verbatim>\<open>ELSIF\<close> on the
  status of the subscription (null when there is none) and on the trial row (absent when
  there is none), in the order of the source. The result is
  \<^verbatim>\<open>(v_new_status, v_has_access, v_access_level)\<close>.
\<close>

definition determine_status_and_access ::
  "timestamptz \<Rightarrow> stripe_subscription_status option \<Rightarrow> user_trial option
     \<Rightarrow> user_account_status \<times> bool \<times> access_level_text" where
  "determine_status_and_access now status v_trial_info =
     (if status = Some Active then (Subscription_active, True, Level_pro)
      else if status = Some Trialing then (Subscription_trialing, True, Level_pro)
      else if status = Some Past_due then (Subscription_past_due, False, Level_suspended)
      else if status = Some Canceled then (Subscription_canceled, False, Level_trial)
      else if (case v_trial_info of None \<Rightarrow> False
               | Some t \<Rightarrow> trial_status t = Trial_active \<and> trial_end_date t > now)
      then (Trial_active_account, True, Level_trial)
      else (Trial_expired_account, False, Level_suspended))"

text \<open>\<^verbatim>\<open>to_timestamp\<close> of a number of seconds.\<close>

definition to_timestamp :: "int \<Rightarrow> timestamptz" where
  "to_timestamp secs = secs * 1000000"

definition sync_user_state_enterprise :: "timestamptz \<Rightarrow> uuid \<Rightarrow> 'a enterprise_db_scheme \<Rightarrow> 'a enterprise_db_scheme \<times> enterprise_sync_result" where
  "sync_user_state_enterprise now p_user_id db =
     (let v_trial_info = select_into [t \<leftarrow> user_trials db. ut_user_id t = p_user_id];
          v_stripe_info = get_stripe_info p_user_id db;
          v_axie_info = select_into [a \<leftarrow> axie_studio_accounts db. asa_user_id a = p_user_id];
          status = (case v_stripe_info of None \<Rightarrow> None | Some i \<Rightarrow> si_status i);
          decided = determine_status_and_access now status v_trial_info;
          v_new_status = fst decided;
          v_has_access = fst (snd decided);
          v_access_level = snd (snd decided)
      in (db\<lparr>enterprise_account_state :=
               map (\<lambda>r. if es_user_id r = p_user_id
                         then r\<lparr>es_account_status := v_new_status,
                                es_has_access := v_has_access,
                                es_access_level := v_access_level,
                                es_stripe_customer_id := map_option si_customer_id v_stripe_info,
                                es_stripe_subscription_id :=
                                  (case v_stripe_info of None \<Rightarrow> None
                                   | Some i \<Rightarrow> si_subscription_id i),
                                es_subscription_status := map_option status_text status,
                                es_current_period_end :=
                                  (case v_stripe_info of None \<Rightarrow> None
                                   | Some i \<Rightarrow> map_option to_timestamp (si_current_period_end i)),
                                es_axie_studio_user_id :=
                                  map_option asa_axie_studio_user_id v_axie_info,
                                es_axie_studio_status :=
                                  (case v_axie_info of None \<Rightarrow> None
                                   | Some a \<Rightarrow> asa_account_status a),
                                es_trial_days_remaining :=
                                  (case v_trial_info of None \<Rightarrow> 0
                                   | Some t \<Rightarrow> days_remaining now (trial_end_date t)),
                                es_updated_at := now,
                                es_last_activity_at := now\<rparr>
                         else r)
                   (enterprise_account_state db)\<rparr>,
          \<lparr>er_user_id = p_user_id, er_status = v_new_status, er_has_access = v_has_access,
           er_access_level = v_access_level, er_synced_at = now\<rparr>))"

subsection \<open>The operations of the reconciler and of the sweeper\<close>

text \<open>
  The functions of the hardened script that the application, the triggers and the
  scheduled cleanup call, as one type, so that a property of every operation is one
  statement. An operation that raises is rolled back and leaves the database as it was;
  \<^verbatim>\<open>get_users_for_deletion\<close> only reads.
\<close>

datatype operation =
  Protect_paying_customers
  | Sync_subscription_status
  | Check_expired_trials
  | Mark_trial_converted uuid
  | Sync_user_state uuid
  | On_subscription_change stripe_subscription
  | Get_users_for_deletion

fun run_operation :: "timestamptz \<Rightarrow> operation \<Rightarrow> 'a final_db_scheme \<Rightarrow> 'a final_db_scheme" where
  "run_operation now Protect_paying_customers db = protect_paying_customers now db"
| "run_operation now Sync_subscription_status db = sync_subscription_status now db"
| "run_operation now Check_expired_trials db = check_expired_trials now db"
| "run_operation now (Mark_trial_converted u) db = mark_trial_converted now u db"
| "run_operation now (Sync_user_state u) db =
     (case sync_user_state now u db of Inl e \<Rightarrow> db | Inr (db', res) \<Rightarrow> db')"
| "run_operation now (On_subscription_change new) db =
     (case on_subscription_change now new db of Inl e \<Rightarrow> db | Inr db' \<Rightarrow> db')"
| "run_operation now Get_users_for_deletion db = db"

subsection \<open>Example rows\<close>

text \<open>A user \<^verbatim>\<open>u1\<close> with the Stripe customer \<^verbatim>\<open>cus_1\<close>, and the super admin, who has
  no customer; the trials and the subscriptions vary.\<close>

definition trial_of :: "uuid \<Rightarrow> timestamptz \<Rightarrow> trial_status \<Rightarrow> timestamptz option \<Rightarrow> user_trial" where
  "trial_of u end_date st dsa =
     \<lparr>ut_user_id = u, trial_end_date = end_date, trial_status = st,
      deletion_scheduled_at = dsa, ut_updated_at = 0\<rparr>"

definition subscription_of :: "string \<Rightarrow> stripe_subscription_status \<Rightarrow> timestamptz \<Rightarrow> stripe_subscription" where
  "subscription_of sub st created =
     \<lparr>ss_customer_id = ''cus_1'', ss_subscription_id = Some sub, ss_status = st,
      ss_current_period_end = None, ss_created_at = created, ss_deleted_at = None\<rparr>"

definition state_row_of :: "uuid \<Rightarrow> string \<Rightarrow> account_state_row" where
  "state_row_of u email =
     \<lparr>uas_user_id = u, uas_email = Some email, account_status = Acc_trial,
      access_level = Lvl_trial, has_access = True, trial_days_remaining = 7,
      stripe_status = None, uas_updated_at = 0\<rparr>"

definition example_db :: "user_trial list \<Rightarrow> stripe_subscription list \<Rightarrow> final_db" where
  "example_db trials subs =
     \<lparr>auth_users = [\<lparr>au_id = ''u1'', au_email = Some ''u1@example.com''\<rparr>,
                    \<lparr>au_id = super_admin, au_email = Some ''stefan@axiestudio.se''\<rparr>],
      user_trials = trials,
      stripe_customers = [\<lparr>sc_user_id = ''u1'', sc_customer_id = ''cus_1'', sc_deleted_at = None\<rparr>],
      stripe_subscriptions = subs,
      axie_studio_accounts = [],
      user_account_state = [state_row_of ''u1'' ''u1@example.com'',
                            state_row_of super_admin ''stefan@axiestudio.se'']\<rparr>"

definition enterprise_row_of :: "uuid \<Rightarrow> enterprise_state_row" where
  "enterprise_row_of u =
     \<lparr>es_user_id = u, es_account_status = Trial_active_account, es_has_access = True,
      es_access_level = Level_trial, es_stripe_customer_id = None,
      es_stripe_subscription_id = None, es_subscription_status = None,
      es_current_period_end = None, es_axie_studio_user_id = None,
      es_axie_studio_status = Some ''active'', es_trial_days_remaining = 0,
      es_updated_at = 0, es_last_activity_at = 0\<rparr>"

definition example_enterprise_db :: "user_trial list \<Rightarrow> stripe_subscription list \<Rightarrow> enterprise_db" where
  "example_enterprise_db trials subs =
     \<lparr>auth_users = [\<lparr>au_id = ''u1'', au_email = Some ''u1@example.com''\<rparr>,
                    \<lparr>au_id = super_admin, au_email = Some ''stefan@axiestudio.se''\<rparr>],
      user_trials = trials,
      stripe_customers = [\<lparr>sc_user_id = ''u1'', sc_customer_id = ''cus_1'', sc_deleted_at = None\<rparr>],
      stripe_subscriptions = subs,
      axie_studio_accounts = [],
      enterprise_account_state = [enterprise_row_of ''u1'', enterprise_row_of super_admin]\<rparr>"

section \<open>Properties\<close>

subsection \<open>The paying-customer subquery\<close>


subsection \<open>Deletion Sweeper\<close>



text \<open>The query of the earlier script has the same conditions on the trial and on the
  billing, and none on the super admin.\<close>

lemma get_users_for_deletion_basic_subset:
  "set (get_users_for_deletion now db) \<subseteq> set (get_users_for_deletion_basic now db)"
  by (auto simp: get_users_for_deletion_def get_users_for_deletion_basic_def split: if_splits)

lemma get_users_for_deletion_basic_admin:
  "dc_user_id ` set (get_users_for_deletion_basic (3 * interval_1_day)
       (example_db [trial_of super_admin 0 Scheduled_for_deletion None] []))
   = {super_admin}"
  by (simp add: get_users_for_deletion_basic_def paying_user_ids_def example_db_def trial_of_def
      super_admin_def interval_1_day_def)

subsection \<open>The trial state machine\<close>

text \<open>The subquery reads no trial, so the three statements of a run see the same
  paying customers.\<close>


lemma paying_user_ids_user_trials [simp]:
  "paying_user_ids (db\<lparr>user_trials := ts\<rparr>) = paying_user_ids db"
  by (simp add: paying_user_ids_def)

lemma user_trials_protect_paying_customers:
  "user_trials (protect_paying_customers now db)
     = map (protect_row now (paying_user_ids db)) (user_trials db)"
  by (simp add: protect_paying_customers_def)

lemma paying_user_ids_protect [simp]:
  "paying_user_ids (protect_paying_customers now db) = paying_user_ids db"
  by (simp add: protect_paying_customers_def)

lemma user_trials_sync_subscription_status_with:
  "user_trials (sync_subscription_status_with guard now db)
     = map (schedule_row guard now (paying_user_ids db)
            \<circ> expire_row guard now (paying_user_ids db)
            \<circ> convert_paying_row now (paying_user_ids db)) (user_trials db)"
  by (simp add: sync_subscription_status_with_def Let_def)

text \<open>What the four statements of a run do to one row, as one case distinction.\<close>

lemma run_row_cases:
  "(schedule_row guard now paying \<circ> expire_row guard now paying
      \<circ> convert_paying_row now paying \<circ> protect_row now paying) ut
   = (if ut_user_id ut \<in> set paying
      then (if trial_status ut = Converted_to_paid then ut
            else ut\<lparr>trial_status := Converted_to_paid, deletion_scheduled_at := None,
                    ut_updated_at := now\<rparr>)
      else if guard \<and> ut_user_id ut = super_admin then ut
      else if trial_status ut = Trial_active \<and> trial_end_date ut < now
      then ut\<lparr>trial_status := Trial_expired,
              deletion_scheduled_at := Some (now + interval_1_day), ut_updated_at := now\<rparr>
      else if trial_status ut = Trial_expired
              \<and> (case deletion_scheduled_at ut of None \<Rightarrow> False | Some d \<Rightarrow> d < now)
      then ut\<lparr>trial_status := Scheduled_for_deletion, ut_updated_at := now\<rparr>
      else ut)"
  by (auto simp: schedule_row_def expire_row_def convert_paying_row_def protect_row_def
      interval_1_day_def)

lemma user_trials_check_expired_trials:
  "user_trials (check_expired_trials now db)
     = map (schedule_row True now (paying_user_ids db)
            \<circ> expire_row True now (paying_user_ids db)
            \<circ> convert_paying_row now (paying_user_ids db)
            \<circ> protect_row now (paying_user_ids db)) (user_trials db)"
  by (simp add: check_expired_trials_def sync_subscription_status_def
      user_trials_sync_subscription_status_with user_trials_protect_paying_customers)

lemma user_trials_check_expired_trials_basic:
  "user_trials (check_expired_trials_basic now db)
     = map (schedule_row False now (paying_user_ids db)
            \<circ> expire_row False now (paying_user_ids db)
            \<circ> convert_paying_row now (paying_user_ids db)
            \<circ> protect_row now (paying_user_ids db)) (user_trials db)"
  by (simp add: check_expired_trials_basic_def sync_subscription_status_basic_def
      user_trials_sync_subscription_status_with user_trials_protect_paying_customers)

lemma list_all2_map_same:
  "list_all2 P xs (map f xs) \<longleftrightarrow> (\<forall>x \<in> set xs. P x (f x))"
  by (simp add: list_all2_map2 list_all2_same)

text \<open>The concrete databases of the witnesses are evaluated with these equations.\<close>


lemmas example_defs =
  example_db_def trial_of_def subscription_of_def state_row_of_def super_admin_def
  interval_1_day_def

lemmas trial_defs =
  check_expired_trials_def sync_subscription_status_def sync_subscription_status_with_def
  protect_paying_customers_def paying_user_ids_def active_or_trialing_def
  convert_paying_row_def expire_row_def schedule_row_def protect_row_def

text \<open>
  C5 (amended). A run of \<^verbatim>\<open>check_expired_trials\<close> at time \<open>now\<close> keeps every trial row in
  its place, and for each row: if the user is neither the super admin nor a paying
  customer, the status is \<^verbatim>\<open>active\<close> and \<^verbatim>\<open>trial_end_date\<close> is strictly before \<open>now\<close>,
  the row becomes \<^verbatim>\<open>expired\<close> with \<^verbatim>\<open>deletion_scheduled_at = now + 1 day\<close>; a row
  becomes \<^verbatim>\<open>scheduled_for_deletion\<close> in this run only if it was \<^verbatim>\<open>expired\<close> before the
  run with a \<^verbatim>\<open>deletion_scheduled_at\<close> strictly before \<open>now\<close>; so no row that is
  \<^verbatim>\<open>active\<close> before the run is \<^verbatim>\<open>scheduled_for_deletion\<close> after it.
\<close>


theorem check_expired_trials_grace_period:
  "list_all2
     (\<lambda>ut ut'.
        ut_user_id ut' = ut_user_id ut \<and>
        (ut_user_id ut \<noteq> super_admin \<and> ut_user_id ut \<notin> set (paying_user_ids db)
           \<and> trial_status ut = Trial_active \<and> trial_end_date ut < now
         \<longrightarrow> trial_status ut' = Trial_expired
             \<and> deletion_scheduled_at ut' = Some (now + interval_1_day)) \<and>
        (trial_status ut' = Scheduled_for_deletion \<and> trial_status ut \<noteq> Scheduled_for_deletion
         \<longrightarrow> trial_status ut = Trial_expired
             \<and> (\<exists>d. deletion_scheduled_at ut = Some d \<and> d < now)) \<and>
        (trial_status ut = Trial_active \<longrightarrow> trial_status ut' \<noteq> Scheduled_for_deletion))
     (user_trials db) (user_trials (check_expired_trials now db))"
  unfolding user_trials_check_expired_trials list_all2_map_same run_row_cases
  by (auto split: option.splits)

theorem check_expired_trials_grace_period_witness:
  "''u1'' \<noteq> super_admin
   \<and> ''u1'' \<notin> set (paying_user_ids (example_db [trial_of ''u1'' 0 Trial_active None] []))
   \<and> (0::int) < 3 * interval_1_day
   \<and> user_trials (check_expired_trials (3 * interval_1_day)
                     (example_db [trial_of ''u1'' 0 Trial_active None] []))
       = [\<lparr>ut_user_id = ''u1'', trial_end_date = 0, trial_status = Trial_expired,
           deletion_scheduled_at = Some (4 * interval_1_day),
           ut_updated_at = 3 * interval_1_day\<rparr>]
   \<and> user_trials (check_expired_trials (5 * interval_1_day)
                     (check_expired_trials (3 * interval_1_day)
                        (example_db [trial_of ''u1'' 0 Trial_active None] [])))
       = [\<lparr>ut_user_id = ''u1'', trial_end_date = 0, trial_status = Scheduled_for_deletion,
           deletion_scheduled_at = Some (4 * interval_1_day),
           ut_updated_at = 5 * interval_1_day\<rparr>]"
  using check_expired_trials_grace_period
      [of "example_db [trial_of ''u1'' 0 Trial_active None] []" "3 * interval_1_day"]
    check_expired_trials_grace_period
      [of "check_expired_trials (3 * interval_1_day)
             (example_db [trial_of ''u1'' 0 Trial_active None] [])" "5 * interval_1_day"]
  by (simp add: trial_defs example_defs)

text \<open>
  C5 as stated fails at the end date itself: the statement that expires a trial tests
  \<^verbatim>\<open>trial_end_date < now()\<close>, so a run at the instant \<^verbatim>\<open>trial_end_date\<close> leaves the
  trial \<^verbatim>\<open>active\<close>.
\<close>


theorem expiry_at_end_date_counterexample:
  "''u1'' \<noteq> super_admin
   \<and> ''u1'' \<notin> set (paying_user_ids
         (example_db [trial_of ''u1'' (7 * interval_1_day) Trial_active None] []))
   \<and> trial_end_date (trial_of ''u1'' (7 * interval_1_day) Trial_active None)
       \<le> 7 * interval_1_day
   \<and> user_trials (check_expired_trials (7 * interval_1_day)
                     (example_db [trial_of ''u1'' (7 * interval_1_day) Trial_active None] []))
       = [trial_of ''u1'' (7 * interval_1_day) Trial_active None]"
  by (simp add: trial_defs example_defs)

text \<open>The run of the earlier script treats every user who is not a paying customer
  in this way, the super admin too.\<close>

lemma check_expired_trials_basic_grace_period:
  "list_all2
     (\<lambda>ut ut'.
        (ut_user_id ut \<notin> set (paying_user_ids db)
           \<and> trial_status ut = Trial_active \<and> trial_end_date ut < now
         \<longrightarrow> trial_status ut' = Trial_expired
             \<and> deletion_scheduled_at ut' = Some (now + interval_1_day)) \<and>
        (trial_status ut' = Scheduled_for_deletion \<and> trial_status ut \<noteq> Scheduled_for_deletion
         \<longrightarrow> trial_status ut = Trial_expired
             \<and> (\<exists>d. deletion_scheduled_at ut = Some d \<and> d < now)))
     (user_trials db) (user_trials (check_expired_trials_basic now db))"
  unfolding user_trials_check_expired_trials_basic list_all2_map_same run_row_cases
  by (auto split: option.splits)

subsection \<open>What \<^verbatim>\<open>sync_user_state\<close> leaves alone\<close>


lemma sync_user_state_tables:
  assumes "sync_user_state now p db = Inr (db', res)"
  shows "auth_users db' = auth_users db" "user_trials db' = user_trials db"
    "stripe_customers db' = stripe_customers db"
    "stripe_subscriptions db' = stripe_subscriptions db"
    "axie_studio_accounts db' = axie_studio_accounts db"
  using assms
  by (auto simp: sync_user_state_def Let_def split: if_splits sum.splits)

lemma on_subscription_change_user_trials:
  assumes "on_subscription_change now new db = Inr db'"
  shows "user_trials db' = user_trials db"
  using assms
  by (auto simp: on_subscription_change_def sync_user_state_tables
      split: list.splits sum.splits prod.splits)

subsection \<open>Transitions of the trial status\<close>


lemma user_trials_run_operation:
  "\<exists>f. user_trials (run_operation now op db) = map f (user_trials db) \<and>
       (\<forall>ut. f ut = ut
          \<or> f ut = (schedule_row True now (paying_user_ids db)
                      \<circ> expire_row True now (paying_user_ids db)
                      \<circ> convert_paying_row now (paying_user_ids db)
                      \<circ> protect_row now (paying_user_ids db)) ut
          \<or> f ut = protect_row now (paying_user_ids db) ut
          \<or> f ut = (schedule_row True now (paying_user_ids db)
                      \<circ> expire_row True now (paying_user_ids db)
                      \<circ> convert_paying_row now (paying_user_ids db)) ut
          \<or> f ut = ut\<lparr>trial_status := Converted_to_paid, deletion_scheduled_at := None,
                            ut_updated_at := now\<rparr>)"
proof (cases op)
  case Protect_paying_customers
  then show ?thesis
    by (intro exI[of _ "protect_row now (paying_user_ids db)"])
      (simp add: user_trials_protect_paying_customers)
next
  case Sync_subscription_status
  then show ?thesis
    by (intro exI[of _ "schedule_row True now (paying_user_ids db)
                      \<circ> expire_row True now (paying_user_ids db)
                      \<circ> convert_paying_row now (paying_user_ids db)"])
      (simp add: sync_subscription_status_def user_trials_sync_subscription_status_with)
next
  case Check_expired_trials
  then show ?thesis
    by (intro exI[of _ "schedule_row True now (paying_user_ids db)
                      \<circ> expire_row True now (paying_user_ids db)
                      \<circ> convert_paying_row now (paying_user_ids db)
                      \<circ> protect_row now (paying_user_ids db)"])
      (simp add: user_trials_check_expired_trials)
next
  case (Mark_trial_converted u)
  then show ?thesis
    by (intro exI[of _ "\<lambda>ut. if ut_user_id ut = u
                    then ut\<lparr>trial_status := Converted_to_paid, deletion_scheduled_at := None,
                            ut_updated_at := now\<rparr>
                    else ut"])
      (simp add: mark_trial_converted_def)
next
  case (Sync_user_state u)
  then show ?thesis
    by (intro exI[of _ "\<lambda>ut. ut"])
      (auto simp: sync_user_state_tables split: sum.splits)
next
  case (On_subscription_change new)
  then show ?thesis
    by (intro exI[of _ "\<lambda>ut. ut"])
      (auto simp: on_subscription_change_user_trials split: sum.splits)
next
  case Get_users_for_deletion
  then show ?thesis
    by (intro exI[of _ "\<lambda>ut. ut"]) simp
qed

text \<open>
  C8. Every operation of the reconciler and of the sweeper keeps every trial row in its
  place, and for each row: the status changes only from \<^verbatim>\<open>active\<close> to \<^verbatim>\<open>expired\<close>, from
  \<^verbatim>\<open>expired\<close> to \<^verbatim>\<open>scheduled_for_deletion\<close>, or from one of these three to
  \<^verbatim>\<open>converted_to_paid\<close>; a row that is \<^verbatim>\<open>converted_to_paid\<close> stays so;
  \<^verbatim>\<open>deletion_scheduled_at\<close> gets a new value that is not null only when the row goes from
  \<^verbatim>\<open>active\<close> to \<^verbatim>\<open>expired\<close>; and it is null whenever the row becomes
  \<^verbatim>\<open>converted_to_paid\<close>.
\<close>


theorem trial_status_transitions:
  "list_all2
     (\<lambda>ut ut'.
        ut_user_id ut' = ut_user_id ut \<and>
        (trial_status ut' \<noteq> trial_status ut \<longrightarrow>
           (trial_status ut = Trial_active \<and> trial_status ut' = Trial_expired)
           \<or> (trial_status ut = Trial_expired \<and> trial_status ut' = Scheduled_for_deletion)
           \<or> (trial_status ut \<in> {Trial_active, Trial_expired, Scheduled_for_deletion}
               \<and> trial_status ut' = Converted_to_paid)) \<and>
        (trial_status ut = Converted_to_paid \<longrightarrow> trial_status ut' = Converted_to_paid) \<and>
        (deletion_scheduled_at ut' \<noteq> deletion_scheduled_at ut
           \<and> deletion_scheduled_at ut' \<noteq> None
         \<longrightarrow> trial_status ut = Trial_active \<and> trial_status ut' = Trial_expired) \<and>
        (trial_status ut' = Converted_to_paid \<and> trial_status ut \<noteq> Converted_to_paid
         \<longrightarrow> deletion_scheduled_at ut' = None))
     (user_trials db) (user_trials (run_operation now op db))"
proof -
  obtain f where f: "user_trials (run_operation now op db) = map f (user_trials db)"
    and cases: "\<And>ut. f ut = ut
          \<or> f ut = (schedule_row True now (paying_user_ids db)
                      \<circ> expire_row True now (paying_user_ids db)
                      \<circ> convert_paying_row now (paying_user_ids db)
                      \<circ> protect_row now (paying_user_ids db)) ut
          \<or> f ut = protect_row now (paying_user_ids db) ut
          \<or> f ut = (schedule_row True now (paying_user_ids db)
                      \<circ> expire_row True now (paying_user_ids db)
                      \<circ> convert_paying_row now (paying_user_ids db)) ut
          \<or> f ut = ut\<lparr>trial_status := Converted_to_paid, deletion_scheduled_at := None,
                            ut_updated_at := now\<rparr>"
    using user_trials_run_operation[of now op db] by blast
  show ?thesis
    unfolding f list_all2_map_same
  proof
    fix ut assume "ut \<in> set (user_trials db)"
    from cases[of ut] show "ut_user_id (f ut) = ut_user_id ut \<and>
        (trial_status (f ut) \<noteq> trial_status ut \<longrightarrow>
           (trial_status ut = Trial_active \<and> trial_status (f ut) = Trial_expired)
           \<or> (trial_status ut = Trial_expired \<and> trial_status (f ut) = Scheduled_for_deletion)
           \<or> (trial_status ut \<in> {Trial_active, Trial_expired, Scheduled_for_deletion}
               \<and> trial_status (f ut) = Converted_to_paid)) \<and>
        (trial_status ut = Converted_to_paid \<longrightarrow> trial_status (f ut) = Converted_to_paid) \<and>
        (deletion_scheduled_at (f ut) \<noteq> deletion_scheduled_at ut
           \<and> deletion_scheduled_at (f ut) \<noteq> None
         \<longrightarrow> trial_status ut = Trial_active \<and> trial_status (f ut) = Trial_expired) \<and>
        (trial_status (f ut) = Converted_to_paid \<and> trial_status ut \<noteq> Converted_to_paid
         \<longrightarrow> deletion_scheduled_at (f ut) = None)"
      by (cases "trial_status ut")
        (auto simp: schedule_row_def expire_row_def convert_paying_row_def protect_row_def
          interval_1_day_def split: if_splits option.splits)
  qed
qed

theorem trial_status_transitions_witness:
  "map (\<lambda>ut. (trial_status ut, deletion_scheduled_at ut))
     (user_trials (example_db [trial_of ''u1'' 0 Trial_active None,
                               trial_of super_admin 0 Trial_expired (Some 5)]
                              [subscription_of ''sub_1'' Canceled 1]))
   = [(Trial_active, None), (Trial_expired, Some 5)]
   \<and> map (\<lambda>ut. (trial_status ut, deletion_scheduled_at ut))
     (user_trials (run_operation (3 * interval_1_day) Check_expired_trials
        (example_db [trial_of ''u1'' 0 Trial_active None,
                     trial_of super_admin 0 Trial_expired (Some 5)]
                    [subscription_of ''sub_1'' Canceled 1])))
   = [(Trial_expired, Some (4 * interval_1_day)), (Trial_expired, Some 5)]"
  using trial_status_transitions
      [of "example_db [trial_of ''u1'' 0 Trial_active None,
                       trial_of super_admin 0 Trial_expired (Some 5)]
                      [subscription_of ''sub_1'' Canceled 1]"
          "3 * interval_1_day" Check_expired_trials]
  by (simp add: trial_defs example_defs)

subsection \<open>Frame of \<^verbatim>\<open>sync_user_state\<close>\<close>


lemmas sync_defs =
  sync_user_state_def set_account_state_def subscription_check_def outer_rows_def select_into_def
  days_remaining_def days_left_def cast_status_def enum_in_def active_or_trialing_def
  Let_def

lemmas enterprise_defs =
  sync_user_state_enterprise_def get_stripe_info_def determine_status_and_access_def
  outer_rows_def select_into_def days_remaining_def to_timestamp_def
  example_enterprise_db_def enterprise_row_of_def

lemma uas_user_id_set_account_state [simp]:
  "uas_user_id (set_account_state now e h d st r) = uas_user_id r"
  by (simp add: set_account_state_def)




subsection \<open>Protection Guard\<close>


lemma outer_rows_iff:
  "x \<in> set (outer_rows ys) \<longleftrightarrow> (ys = [] \<and> x = None) \<or> (\<exists>y \<in> set ys. x = Some y)"
  by (auto simp: outer_rows_def)

lemma outer_rows_not_Nil [simp]: "outer_rows ys \<noteq> []"
  by (simp add: outer_rows_def)

lemma distinct_map_eq:
  "distinct (map f xs) \<Longrightarrow> x \<in> set xs \<Longrightarrow> y \<in> set xs \<Longrightarrow> f x = f y \<Longrightarrow> x = y"
  by (meson distinct_map inj_on_def)

lemma verify_user_protection_rows:
  "r \<in> set (verify_user_protection p db) \<longleftrightarrow>
     (\<exists>u \<in> set (auth_users db). au_id u = p \<and>
        (\<exists>ut \<in> set (outer_rows [t \<leftarrow> user_trials db. p = ut_user_id t]).
         \<exists>sc \<in> set (outer_rows [c \<leftarrow> stripe_customers db. p = sc_user_id c]).
         \<exists>ss \<in> set (outer_rows (case sc of None \<Rightarrow> []
               | Some c \<Rightarrow> [s \<leftarrow> stripe_subscriptions db.
                              sc_customer_id c = ss_customer_id s
                              \<and> active_or_trialing (ss_status s)
                              \<and> ss_deleted_at s = None])).
           r = protection_select u ut ss))"
  unfolding verify_user_protection_def
  by (auto split: if_splits)

lemma is_protected_protection_select:
  "is_protected (protection_select u ut ss)
     \<longleftrightarrow> au_id u = super_admin \<or> (\<exists>s. ss = Some s \<and> active_or_trialing (ss_status s))"
  by (auto simp: protection_select_def split: option.splits)

lemmas protection_defs =
  verify_user_protection_def verify_user_protection_basic_def protection_select_def
  protection_select_basic_def outer_rows_def active_or_trialing_def

text \<open>
  C7. Where a user has at most one row of \<^verbatim>\<open>stripe_customers\<close> (the table declares
  \<^verbatim>\<open>UNIQUE(user_id)\<close>), every row that \<^verbatim>\<open>verify_user_protection\<close> of the hardened script
  returns for a user has \<^verbatim>\<open>is_protected = true\<close> if and only if the user is the super
  admin or has a subscription row of status \<^verbatim>\<open>active\<close> or \<^verbatim>\<open>trialing\<close> that is not
  soft-deleted, and \<^verbatim>\<open>false\<close> otherwise; the function returns a row exactly for the users
  of \<^verbatim>\<open>auth.users\<close>.
\<close>


theorem verify_user_protection_iff:
  assumes uniq: "distinct (map sc_user_id (stripe_customers db))"
  shows "(\<forall>r \<in> set (verify_user_protection p db).
            is_protected r \<longleftrightarrow>
              (p = super_admin \<or>
               (\<exists>c \<in> set (stripe_customers db). \<exists>s \<in> set (stripe_subscriptions db).
                  sc_user_id c = p \<and> ss_customer_id s = sc_customer_id c
                  \<and> (ss_status s = Active \<or> ss_status s = Trialing)
                  \<and> ss_deleted_at s = None)))
         \<and> (verify_user_protection p db \<noteq> [] \<longleftrightarrow> p \<in> au_id ` set (auth_users db))"
proof (intro conjI ballI)
  fix r assume "r \<in> set (verify_user_protection p db)"
  then obtain u ut sc ss where u: "au_id u = p"
    and sc: "sc \<in> set (outer_rows [c \<leftarrow> stripe_customers db. p = sc_user_id c])"
    and ss: "ss \<in> set (outer_rows (case sc of None \<Rightarrow> []
               | Some c \<Rightarrow> [s \<leftarrow> stripe_subscriptions db.
                              sc_customer_id c = ss_customer_id s
                              \<and> active_or_trialing (ss_status s)
                              \<and> ss_deleted_at s = None]))"
    and r: "r = protection_select u ut ss"
    unfolding verify_user_protection_rows by blast
  let ?paying = "\<exists>c \<in> set (stripe_customers db). \<exists>s \<in> set (stripe_subscriptions db).
                  sc_user_id c = p \<and> ss_customer_id s = sc_customer_id c
                  \<and> (ss_status s = Active \<or> ss_status s = Trialing)
                  \<and> ss_deleted_at s = None"
  have "(\<exists>s. ss = Some s \<and> active_or_trialing (ss_status s)) \<longleftrightarrow> ?paying"
  proof
    assume "\<exists>s. ss = Some s \<and> active_or_trialing (ss_status s)"
    then obtain s where s: "ss = Some s" "active_or_trialing (ss_status s)" by blast
    with ss obtain c where "sc = Some c"
      by (cases sc) (auto simp: outer_rows_iff)
    with sc ss s show ?paying
      by (fastforce simp: outer_rows_iff active_or_trialing_def)
  next
    assume ?paying
    then obtain c0 s0 where c0: "c0 \<in> set (stripe_customers db)" "sc_user_id c0 = p"
      and s0: "s0 \<in> set (stripe_subscriptions db)" "ss_customer_id s0 = sc_customer_id c0"
        "active_or_trialing (ss_status s0)" "ss_deleted_at s0 = None"
      by (auto simp: active_or_trialing_def)
    from sc c0 obtain c where c: "sc = Some c" "c \<in> set (stripe_customers db)" "sc_user_id c = p"
      by (auto simp: outer_rows_iff filter_empty_conv)
    with c0 uniq have "c = c0" by (auto dest: distinct_map_eq)
    with ss c s0 show "\<exists>s. ss = Some s \<and> active_or_trialing (ss_status s)"
      by (auto simp: outer_rows_iff filter_empty_conv)
  qed
  with r u show "is_protected r \<longleftrightarrow> (p = super_admin \<or> ?paying)"
    by (simp add: is_protected_protection_select)
next
  show "verify_user_protection p db \<noteq> [] \<longleftrightarrow> p \<in> au_id ` set (auth_users db)"
  proof
    assume "verify_user_protection p db \<noteq> []"
    then obtain r where "r \<in> set (verify_user_protection p db)"
      by (cases "verify_user_protection p db") auto
    then show "p \<in> au_id ` set (auth_users db)"
      unfolding verify_user_protection_rows by blast
  next
    assume "p \<in> au_id ` set (auth_users db)"
    then obtain u where u: "u \<in> set (auth_users db)" "au_id u = p" by blast
    obtain ut where ut: "ut \<in> set (outer_rows [t \<leftarrow> user_trials db. p = ut_user_id t])"
      by (meson outer_rows_not_Nil last_in_set)
    obtain sc where sc: "sc \<in> set (outer_rows [c \<leftarrow> stripe_customers db. p = sc_user_id c])"
      by (meson outer_rows_not_Nil last_in_set)
    obtain ss where ss: "ss \<in> set (outer_rows (case sc of None \<Rightarrow> []
               | Some c \<Rightarrow> [s \<leftarrow> stripe_subscriptions db.
                              sc_customer_id c = ss_customer_id s
                              \<and> active_or_trialing (ss_status s)
                              \<and> ss_deleted_at s = None]))"
      by (meson outer_rows_not_Nil last_in_set)
    from u ut sc ss have "protection_select u ut ss \<in> set (verify_user_protection p db)"
      unfolding verify_user_protection_rows by blast
    then show "verify_user_protection p db \<noteq> []" by auto
  qed
qed

theorem verify_user_protection_iff_witness:
  "distinct (map sc_user_id (stripe_customers
       (example_db [trial_of ''u1'' 0 Trial_expired None] [subscription_of ''sub_1'' Trialing 1])))
   \<and> map is_protected (verify_user_protection ''u1''
       (example_db [trial_of ''u1'' 0 Trial_expired None] [subscription_of ''sub_1'' Trialing 1]))
     = [True]
   \<and> map is_protected (verify_user_protection super_admin
       (example_db [trial_of ''u1'' 0 Trial_expired None] [subscription_of ''sub_1'' Trialing 1]))
     = [True]
   \<and> map is_protected (verify_user_protection ''u1''
       (example_db [trial_of ''u1'' 0 Trial_expired None] [subscription_of ''sub_1'' Past_due 1]))
     = [False]"
  using verify_user_protection_iff
      [of "example_db [trial_of ''u1'' 0 Trial_expired None] [subscription_of ''sub_1'' Trialing 1]"
          "''u1''"]
  by (simp add: protection_defs example_defs)

text \<open>The guard of the earlier script knows no super admin, and protects a user whose
  trial is converted and who has no subscription.\<close>

lemma verify_user_protection_basic_differs:
  "map is_protected (verify_user_protection_basic super_admin
       (example_db [trial_of super_admin 0 Trial_active None] [])) = [False]
   \<and> map is_protected (verify_user_protection_basic ''u1''
       (example_db [trial_of ''u1'' 0 Converted_to_paid None] [])) = [True]"
  by (simp add: protection_defs example_defs)

subsection \<open>Access Classifier\<close>


lemma sync_user_state_enterprise_result:
  "snd (sync_user_state_enterprise now p db)
     = (let d = determine_status_and_access now
                  (case get_stripe_info p db of None \<Rightarrow> None | Some i \<Rightarrow> si_status i)
                  (select_into [t \<leftarrow> user_trials db. ut_user_id t = p])
        in \<lparr>er_user_id = p, er_status = fst d, er_has_access = fst (snd d),
            er_access_level = snd (snd d), er_synced_at = now\<rparr>)"
  by (simp add: sync_user_state_enterprise_def Let_def)

lemma sync_user_state_enterprise_written:
  "map (\<lambda>r. (es_user_id r, es_account_status r, es_has_access r, es_access_level r))
       (enterprise_account_state (fst (sync_user_state_enterprise now p db)))
   = map (\<lambda>r. if es_user_id r = p
              then (p, er_status (snd (sync_user_state_enterprise now p db)),
                    er_has_access (snd (sync_user_state_enterprise now p db)),
                    er_access_level (snd (sync_user_state_enterprise now p db)))
              else (es_user_id r, es_account_status r, es_has_access r, es_access_level r))
       (enterprise_account_state db)"
  by (simp add: sync_user_state_enterprise_def Let_def)

lemma sync_user_state_enterprise_rows:
  assumes "r \<in> set (enterprise_account_state (fst (sync_user_state_enterprise now p db)))"
    and "es_user_id r = p"
  shows "es_account_status r = er_status (snd (sync_user_state_enterprise now p db))
         \<and> es_has_access r = er_has_access (snd (sync_user_state_enterprise now p db))
         \<and> es_access_level r = er_access_level (snd (sync_user_state_enterprise now p db))"
proof -
  let ?g = "\<lambda>r. (es_user_id r, es_account_status r, es_has_access r, es_access_level r)"
  let ?h = "\<lambda>x. if es_user_id x = p
              then (p, er_status (snd (sync_user_state_enterprise now p db)),
                    er_has_access (snd (sync_user_state_enterprise now p db)),
                    er_access_level (snd (sync_user_state_enterprise now p db)))
              else ?g x"
  from assms(1) have "?g r \<in> set (map ?g
      (enterprise_account_state (fst (sync_user_state_enterprise now p db))))"
    by simp
  then have "?g r \<in> ?h ` set (enterprise_account_state db)"
    unfolding sync_user_state_enterprise_written set_map .
  then have "\<exists>x \<in> set (enterprise_account_state db). ?g r = ?h x"
    by (simp only: image_iff)
  with assms(2) show ?thesis
    by (auto split: if_splits)
qed

text \<open>
  C6 (amended). \<^verbatim>\<open>sync_user_state\<close> of the enterprise part decides on the status of the
  subscription first: for \<^verbatim>\<open>past_due\<close> the result is \<^verbatim>\<open>subscription_past_due\<close>, no
  access and level \<^verbatim>\<open>suspended\<close>; for \<^verbatim>\<open>canceled\<close> it is \<^verbatim>\<open>subscription_canceled\<close>, no
  access and level \<^verbatim>\<open>trial\<close>, whatever the trial; for \<^verbatim>\<open>unpaid\<close> no branch on the
  billing matches and the trial decides: access and level \<^verbatim>\<open>trial\<close> when the trial is
  \<^verbatim>\<open>active\<close> and ends after the current time, no access and level \<^verbatim>\<open>suspended\<close>
  otherwise. The rows of the user in \<^verbatim>\<open>user_account_state\<close> hold what the call returns.
\<close>


theorem access_classifier_precedence:
  assumes info: "get_stripe_info p db = Some i"
    and run: "sync_user_state_enterprise now p db = (db', res)"
  shows "(si_status i = Some Past_due \<longrightarrow>
            er_status res = Subscription_past_due \<and> \<not> er_has_access res
            \<and> er_access_level res = Level_suspended)
         \<and> (si_status i = Some Canceled \<longrightarrow>
            er_status res = Subscription_canceled \<and> \<not> er_has_access res
            \<and> er_access_level res = Level_trial)
         \<and> (si_status i = Some Unpaid \<longrightarrow>
            (if \<exists>t. select_into [t \<leftarrow> user_trials db. ut_user_id t = p] = Some t
                     \<and> trial_status t = Trial_active \<and> trial_end_date t > now
             then er_status res = Trial_active_account \<and> er_has_access res
                  \<and> er_access_level res = Level_trial
             else er_status res = Trial_expired_account \<and> \<not> er_has_access res
                  \<and> er_access_level res = Level_suspended))
         \<and> (\<forall>r \<in> set (enterprise_account_state db'). es_user_id r = p \<longrightarrow>
               es_account_status r = er_status res \<and> es_has_access r = er_has_access res
               \<and> es_access_level r = er_access_level res)"
proof -
  define tr where "tr = select_into [t \<leftarrow> user_trials db. ut_user_id t = p]"
  define d where "d = determine_status_and_access now (si_status i) tr"
  from run have db': "db' = fst (sync_user_state_enterprise now p db)"
    and res: "res = snd (sync_user_state_enterprise now p db)" by simp_all
  have fields: "er_status res = fst d" "er_has_access res = fst (snd d)"
    "er_access_level res = snd (snd d)"
    unfolding res sync_user_state_enterprise_result d_def tr_def by (simp_all add: info Let_def)
  have 1: "si_status i = Some Past_due \<Longrightarrow> d = (Subscription_past_due, False, Level_suspended)"
    and 2: "si_status i = Some Canceled \<Longrightarrow> d = (Subscription_canceled, False, Level_trial)"
    and 3: "si_status i = Some Unpaid \<Longrightarrow>
        d = (if \<exists>t. tr = Some t \<and> trial_status t = Trial_active \<and> trial_end_date t > now
             then (Trial_active_account, True, Level_trial)
             else (Trial_expired_account, False, Level_suspended))"
    unfolding d_def determine_status_and_access_def by (auto split: option.splits)
  have rows: "\<forall>r \<in> set (enterprise_account_state db'). es_user_id r = p \<longrightarrow>
               es_account_status r = er_status res \<and> es_has_access r = er_has_access res
               \<and> es_access_level r = er_access_level res"
    unfolding db' res using sync_user_state_enterprise_rows by blast
  have "(if \<exists>t. tr = Some t \<and> trial_status t = Trial_active \<and> trial_end_date t > now
             then er_status res = Trial_active_account \<and> er_has_access res
                  \<and> er_access_level res = Level_trial
             else er_status res = Trial_expired_account \<and> \<not> er_has_access res
                  \<and> er_access_level res = Level_suspended)"
    if unpaid: "si_status i = Some Unpaid"
  proof (cases "\<exists>t. tr = Some t \<and> trial_status t = Trial_active \<and> trial_end_date t > now")
    case True
    from 3[OF unpaid] True have "d = (Trial_active_account, True, Level_trial)" by simp
    with True show ?thesis unfolding fields by simp
  next
    case False
    from 3[OF unpaid] False have "d = (Trial_expired_account, False, Level_suspended)" by simp
    with False show ?thesis unfolding fields by simp
  qed
  moreover have "si_status i = Some Past_due \<longrightarrow>
            er_status res = Subscription_past_due \<and> \<not> er_has_access res
            \<and> er_access_level res = Level_suspended"
    using 1 unfolding fields by simp
  moreover have "si_status i = Some Canceled \<longrightarrow>
            er_status res = Subscription_canceled \<and> \<not> er_has_access res
            \<and> er_access_level res = Level_trial"
    using 2 unfolding fields by simp
  ultimately show ?thesis
    using rows unfolding tr_def by blast
qed

theorem access_classifier_precedence_witness:
  "get_stripe_info ''u1''
      (example_enterprise_db [trial_of ''u1'' (5 * interval_1_day) Trial_active None]
                             [subscription_of ''sub_1'' Unpaid 1])
     = Some \<lparr>si_customer_id = ''cus_1'', si_subscription_id = Some ''sub_1'',
             si_status = Some Unpaid, si_current_period_end = None\<rparr>
   \<and> er_has_access (snd (sync_user_state_enterprise (3 * interval_1_day) ''u1''
        (example_enterprise_db [trial_of ''u1'' (5 * interval_1_day) Trial_active None]
                               [subscription_of ''sub_1'' Unpaid 1])))
   \<and> map es_has_access (enterprise_account_state
        (fst (sync_user_state_enterprise (3 * interval_1_day) ''u1''
        (example_enterprise_db [trial_of ''u1'' (5 * interval_1_day) Trial_active None]
                               [subscription_of ''sub_1'' Unpaid 1]))))
     = [True, True]"
  using access_classifier_precedence
    [of "''u1''" "example_enterprise_db [trial_of ''u1'' (5 * interval_1_day) Trial_active None]
                               [subscription_of ''sub_1'' Unpaid 1]"
        "\<lparr>si_customer_id = ''cus_1'', si_subscription_id = Some ''sub_1'',
             si_status = Some Unpaid, si_current_period_end = None\<rparr>"
        "3 * interval_1_day"
        "fst (sync_user_state_enterprise (3 * interval_1_day) ''u1''
        (example_enterprise_db [trial_of ''u1'' (5 * interval_1_day) Trial_active None]
                               [subscription_of ''sub_1'' Unpaid 1]))"
        "snd (sync_user_state_enterprise (3 * interval_1_day) ''u1''
        (example_enterprise_db [trial_of ''u1'' (5 * interval_1_day) Trial_active None]
                               [subscription_of ''sub_1'' Unpaid 1]))"]
  by (simp add: enterprise_defs example_defs Let_def)

text \<open>
  C6 as stated fails for \<^verbatim>\<open>canceled\<close>: the branch sets \<^verbatim>\<open>v_has_access := false\<close> and
  does not look at the trial, so a user whose trial is active and unexpired has no access.
\<close>


theorem canceled_with_active_trial_counterexample:
  "get_stripe_info ''u1''
      (example_enterprise_db [trial_of ''u1'' (5 * interval_1_day) Trial_active None]
                             [subscription_of ''sub_1'' Canceled 1])
     = Some \<lparr>si_customer_id = ''cus_1'', si_subscription_id = Some ''sub_1'',
             si_status = Some Canceled, si_current_period_end = None\<rparr>
   \<and> trial_status (trial_of ''u1'' (5 * interval_1_day) Trial_active None) = Trial_active
   \<and> trial_end_date (trial_of ''u1'' (5 * interval_1_day) Trial_active None) > 3 * interval_1_day
   \<and> snd (sync_user_state_enterprise (3 * interval_1_day) ''u1''
        (example_enterprise_db [trial_of ''u1'' (5 * interval_1_day) Trial_active None]
                               [subscription_of ''sub_1'' Canceled 1]))
     = \<lparr>er_user_id = ''u1'', er_status = Subscription_canceled, er_has_access = False,
        er_access_level = Level_trial, er_synced_at = 3 * interval_1_day\<rparr>"
  by (simp add: enterprise_defs example_defs Let_def)

text \<open>And for \<^verbatim>\<open>unpaid\<close> with a trial that is over, the level is \<^verbatim>\<open>suspended\<close>, not
  \<^verbatim>\<open>trial\<close>.\<close>


lemma unpaid_with_expired_trial_level:
  "snd (sync_user_state_enterprise (3 * interval_1_day) ''u1''
        (example_enterprise_db [trial_of ''u1'' 0 Trial_expired None]
                               [subscription_of ''sub_1'' Unpaid 1]))
     = \<lparr>er_user_id = ''u1'', er_status = Trial_expired_account, er_has_access = False,
        er_access_level = Level_suspended, er_synced_at = 3 * interval_1_day\<rparr>"
  by (simp add: enterprise_defs example_defs Let_def)

subsection \<open>Idempotence of a reconciliation run\<close>


lemma check_expired_trials_eq:
  "check_expired_trials now db
     = db\<lparr>user_trials :=
            map (schedule_row True now (paying_user_ids db)
                 \<circ> expire_row True now (paying_user_ids db)
                 \<circ> convert_paying_row now (paying_user_ids db)
                 \<circ> protect_row now (paying_user_ids db)) (user_trials db)\<rparr>"
  by (simp add: check_expired_trials_def sync_subscription_status_def
      sync_subscription_status_with_def protect_paying_customers_def Let_def)



lemma subscription_check_account_state [simp]:
  "subscription_check p (db\<lparr>user_account_state := rows\<rparr>) = subscription_check p db"
  by (simp add: subscription_check_def cong: if_cong)

lemma set_account_state_idem [simp]:
  "set_account_state now e h d st (set_account_state now e h d st r)
     = set_account_state now e h d st r"
  by (simp add: set_account_state_def)

lemma uas_email_set_account_state [simp]:
  "uas_email (set_account_state now e h d st r) = e"
  by (simp add: set_account_state_def)

lemma has_access_set_account_state [simp]:
  "has_access (set_account_state now e h d st r) \<longleftrightarrow> h = Some True \<or> days_left d"
  by (simp add: set_account_state_def)

text \<open>The outcome of \<^verbatim>\<open>sync_user_state\<close> as a function of what it reads.\<close>

lemma sync_user_state_outcome:
  fixes db :: "'a final_db_scheme" and p :: uuid and now :: timestamptz
  defines "e \<equiv> (case select_into [u \<leftarrow> auth_users db. au_id u = p] of
                            None \<Rightarrow> None | Some u \<Rightarrow> au_email u)"
    and "h \<equiv> map_option fst (subscription_check p db)"
    and "vst \<equiv> map_option snd (subscription_check p db)"
    and "d \<equiv> select_into [days_remaining now (trial_end_date t).
                                        t \<leftarrow> user_trials db, ut_user_id t = p]"
  defines "res \<equiv> \<lparr>sr_user_id = p, sr_email = e, sr_has_subscription = h,
                      sr_subscription_status = vst,
                      sr_trial_days_remaining = (case d of None \<Rightarrow> 0 | Some d \<Rightarrow> d),
                      sr_sync_timestamp = now\<rparr>"
  shows "sync_user_state now p db =
     (if \<not> (\<exists>r \<in> set (user_account_state db). uas_user_id r = p) then Inr (db, res)
      else case cast_status vst of
             Inl err \<Rightarrow> Inl err
           | Inr st \<Rightarrow>
               if e = None then Inl Not_null_violation
               else if \<exists>r \<in> set (user_account_state db). uas_user_id r \<noteq> p \<and> uas_email r = e
               then Inl Unique_violation
               else Inr (db\<lparr>user_account_state :=
                             map (\<lambda>r. if uas_user_id r = p
                                       then set_account_state now e h d st r else r)
                                 (user_account_state db)\<rparr>, res))"
  unfolding sync_user_state_def Let_def e_def h_def vst_def d_def res_def ..


lemma paying_user_ids_account_state [simp]:
  "paying_user_ids (db\<lparr>user_account_state := rows\<rparr>) = paying_user_ids db"
  by (simp add: paying_user_ids_def)





subsection \<open>What \<^verbatim>\<open>sync_user_state\<close> of the hardened script writes\<close>

lemma enum_in_status_text [simp]: "enum_in (status_text st) = Some st"
  by (cases st) (simp_all add: enum_in_def)

lemma cast_status_status_text [simp]:
  "cast_status (Some (status_text st)) = Inr (Some st)"
  by (simp add: cast_status_def)





lemma access_level_set_account_state [simp]:
  "access_level (set_account_state now e h d st r)
     = (if h = Some True then Lvl_pro else if days_left d then Lvl_trial else Lvl_none)"
  by (simp add: set_account_state_def)

lemma account_status_set_account_state [simp]:
  "account_status (set_account_state now e h d st r)
     = (if h = Some True then Acc_active else if days_left d then Acc_trial else Acc_expired)"
  by (simp add: set_account_state_def)






subsection \<open>When \<^verbatim>\<open>sync_user_state\<close> raises\<close>

lemma subscription_check_cases:
  "subscription_check p db = None \<or> subscription_check p db = Some (False, ''none'')
   \<or> (\<exists>st. subscription_check p db = Some (active_or_trialing st, status_text st))"
  unfolding subscription_check_def by (auto split: option.splits)

lemma status_text_not_none [simp]: "status_text st \<noteq> ''none''" "''none'' \<noteq> status_text st"
  by (cases st; simp)+

lemma cast_status_subscription_check:
  "cast_status (map_option snd (subscription_check p db))
     = (if subscription_check p db = Some (False, ''none'')
        then Inl (Invalid_enum_input ''none'')
        else Inr (case subscription_check p db of None \<Rightarrow> None
                  | Some (b, vst) \<Rightarrow> enum_in vst))"
  using subscription_check_cases[of p db]
  by (auto simp: cast_status_def enum_in_def[of "''none''"])

text \<open>When \<^verbatim>\<open>sync_user_state\<close> raises: the user has a row of
  \<^verbatim>\<open>user_account_state\<close>, and either a customer row without any live subscription row
  (the text \<^verbatim>\<open>'none'\<close> is no label of the enum), or no email in \<^verbatim>\<open>auth.users\<close>, or an
  email that another row of \<^verbatim>\<open>user_account_state\<close> holds.\<close>

lemma sync_user_state_raises_iff:
  fixes db :: "'a final_db_scheme"
  shows "isl (sync_user_state now p db) \<longleftrightarrow>
     (\<exists>r \<in> set (user_account_state db). uas_user_id r = p)
     \<and> (subscription_check p db = Some (False, ''none'')
        \<or> (case select_into [u \<leftarrow> auth_users db. au_id u = p] of
              None \<Rightarrow> None | Some u \<Rightarrow> au_email u) = None
        \<or> (\<exists>r \<in> set (user_account_state db). uas_user_id r \<noteq> p
              \<and> uas_email r = (case select_into [u \<leftarrow> auth_users db. au_id u = p] of
                                 None \<Rightarrow> None | Some u \<Rightarrow> au_email u)))"
  unfolding sync_user_state_outcome cast_status_subscription_check
  by simp

lemma sync_user_state_raises_example:
  "sync_user_state (3 * interval_1_day) ''u1''
     (example_db [trial_of ''u1'' (5 * interval_1_day) Trial_active None] [])
   = Inl (Invalid_enum_input ''none'')"
  by (simp add: sync_defs example_defs)

subsection \<open>Paying customers\<close>


lemma check_expired_trials_billing [simp]:
  "stripe_customers (check_expired_trials now db) = stripe_customers db"
  "stripe_subscriptions (check_expired_trials now db) = stripe_subscriptions db"
  "auth_users (check_expired_trials now db) = auth_users db"
  by (simp_all add: check_expired_trials_eq)





subsection \<open>The super admin\<close>







subsection \<open>The trigger on a change of a subscription\<close>







text \<open>The trigger function of the earlier script converts the trial itself, and
  writes no derived state.\<close>

lemma on_subscription_change_basic_converts:
  "\<not> isl (on_subscription_change_basic (3 * interval_1_day) (subscription_of ''sub_1'' Active 1)
           (example_db [trial_of ''u1'' 0 Scheduled_for_deletion (Some interval_1_day)]
                       [subscription_of ''sub_1'' Active 1]))
   \<and> map (\<lambda>ut. (ut_user_id ut, trial_status ut, deletion_scheduled_at ut))
       (user_trials (projr (on_subscription_change_basic (3 * interval_1_day)
           (subscription_of ''sub_1'' Active 1)
           (example_db [trial_of ''u1'' 0 Scheduled_for_deletion (Some interval_1_day)]
                       [subscription_of ''sub_1'' Active 1]))))
     = [(''u1'', Converted_to_paid, None)]
   \<and> user_account_state (projr (on_subscription_change_basic (3 * interval_1_day)
           (subscription_of ''sub_1'' Active 1)
           (example_db [trial_of ''u1'' 0 Scheduled_for_deletion (Some interval_1_day)]
                       [subscription_of ''sub_1'' Active 1])))
     = user_account_state (example_db [] [])"
  by (simp add: on_subscription_change_basic_def mark_trial_converted_def
      active_or_trialing_def example_defs)

end
